theory Spec2Isabelle
  imports Main "HOL-Library.Word"
begin

section \<open>Values shared by the whole package\<close>

text \<open>
  The package is built for Windows only. \<open>uintptr\<close> and \<open>syscall.Handle\<close> are
  machine words (64 bits on the amd64 target), and the handle types of the package
  (\<open>EventHandle\<close>, \<open>PublisherHandle\<close>, \<open>BookmarkHandle\<close>, \<open>ListenerHandle\<close>,
  \<open>SysRenderContext\<close>) are 64-bit unsigned integers converted to and from
  \<open>syscall.Handle\<close> without change of value. Their declarations are not part of
  \<open>event.go\<close>; only the conversions are, and these are what is embedded.
\<close>

type_synonym uintptr = "64 word"
type_synonym uint32 = "32 word"
type_synonym Handle = uintptr
type_synonym byte = "8 word"

text \<open>
  A Go \<open>error\<close> value. \<open>Errno n\<close> is \<open>syscall.Errno(n)\<close>; \<open>EINVAL\<close> is the
  \<open>syscall\<close> package's invalid-argument number, kept symbolic;
  \<open>Errorf f e\<close> is the value of \<open>fmt.Errorf(f, e)\<close>. A nil error is \<open>None\<close> of
  \<open>error option\<close>.
\<close>

datatype error = Errno uintptr | EINVAL | Errorf string error

text \<open>What a call of a Go function does: it returns, or the runtime panics.\<close>

datatype 'a outcome = Returned 'a | Panicked

section \<open>The subscription callback\<close>

text \<open>
  \<open>EVT_SUBSCRIBE_NOTIFY_ACTION\<close>: \<open>EvtSubscribeActionError = iota\<close>,
  \<open>EvtSubscribeActionDeliver\<close> follows.
\<close>

definition EvtSubscribeActionError :: uint32 where
  "EvtSubscribeActionError = 0"

definition EvtSubscribeActionDeliver :: uint32 where
  "EvtSubscribeActionDeliver = 1"

text \<open>
  \<open>LogEventCallbackWrapper\<close> is used through its two fields: \<open>callback\<close>, an
  interface value (nil, or some consumer object of type \<open>'cb\<close>) with the methods
  \<open>PublishError\<close> and \<open>PublishEvent\<close>, and \<open>subscribedChannel\<close>. The methods belong
  to the consumer; the embedding records each invocation with its receiver and arguments.
\<close>

record 'cb LogEventCallbackWrapper =
  callback :: "'cb option"
  subscribedChannel :: string

datatype 'cb sink_call =
    PublishError 'cb error
  | PublishEvent 'cb Handle string

text \<open>
  \<open>newEventCallback(context)\<close> applied to \<open>(action, _, handle)\<close>. \<open>context\<close> is a
  pointer (\<open>None\<close> is nil); reading a field through a nil pointer and calling a method
  of a nil interface panic. The result is the list of consumer methods invoked, in
  order, and the returned \<open>uintptr\<close>.
\<close>

definition newEventCallback ::
  "'cb LogEventCallbackWrapper option \<Rightarrow> uint32 \<Rightarrow> uintptr \<Rightarrow> Handle
     \<Rightarrow> ('cb sink_call list \<times> uintptr) outcome" where
  "newEventCallback context action unused handle =
     (if action = EvtSubscribeActionError then
        (let err = Errno handle in
         case context of
           None \<Rightarrow> Panicked
         | Some w \<Rightarrow>
             (case callback w of
                None \<Rightarrow> Panicked
              | Some cb \<Rightarrow>
                  Returned ([PublishError cb (Errorf ''Event log callback got error: %v'' err)], 0)))
      else
        (case context of
           None \<Rightarrow> Panicked
         | Some w \<Rightarrow>
             (case callback w of
                None \<Rightarrow> Panicked
              | Some cb \<Rightarrow> Returned ([PublishEvent cb handle (subscribedChannel w)], 0))))"

fun is_PublishError :: "'cb sink_call \<Rightarrow> bool" where
  "is_PublishError (PublishError _ _) = True"
| "is_PublishError (PublishEvent _ _ _) = False"

fun is_PublishEvent :: "'cb sink_call \<Rightarrow> bool" where
  "is_PublishEvent (PublishError _ _) = False"
| "is_PublishEvent (PublishEvent _ _ _) = True"


section \<open>The native interface\<close>

text \<open>
  Every wrapper of \<open>wevtapi.dll\<close> goes through \<open>LazyProc.Call\<close>, which gives back
  \<open>r1\<close> and \<open>lastErr\<close> (never a nil error). The native side is opaque: it is a
  parameter of each function below, a step on a world state \<open>'w\<close> that answers the
  arguments of a call with a reply. A pointer argument is \<open>None\<close> for nil, or carries
  the bytes of the allocation it points into; an out-parameter carries the value of its
  cell on entry, and the reply gives the value it holds on return and the bytes written
  from the start of the buffer.
\<close>

record EvtRender_args =
  rn_Context :: Handle
  rn_Fragment :: Handle
  rn_Flags :: uint32
  rn_BufferSize :: uint32
  rn_Buffer :: "byte list option"
  rn_BufferUsed :: uint32
  rn_PropertyCount :: uint32

record EvtRender_reply =
  rn_r1 :: uintptr
  rn_lastErr :: error
  rn_written :: "byte list"
  rn_out_BufferUsed :: uint32
  rn_out_PropertyCount :: uint32

record EvtFormatMessage_args =
  fm_PublisherMetadata :: Handle
  fm_Event :: Handle
  fm_MessageId :: uint32
  fm_ValueCount :: uint32
  fm_Values :: "byte list option"
  fm_Flags :: uint32
  fm_BufferSize :: uint32
  fm_Buffer :: "byte list option"
  fm_BufferUsed :: uint32

record EvtFormatMessage_reply =
  fm_r1 :: uintptr
  fm_lastErr :: error
  fm_written :: "byte list"
  fm_out_BufferUsed :: uint32

text \<open>
  The callback argument of \<open>EvtSubscribe\<close> is
  \<open>syscall.NewCallback(newEventCallback(watcher))\<close>; it is identified here by the
  watcher pointer the closure captures. A \<open>*uint16\<close> made by
  \<open>syscall.UTF16PtrFromString\<close> is identified by the string it encodes.
\<close>

record 'cb EvtSubscribe_args =
  sub_Session :: Handle
  sub_SignalEvent :: Handle
  sub_ChannelPath :: "string option"
  sub_Query :: "string option"
  sub_Bookmark :: Handle
  sub_context :: uintptr
  sub_Callback :: "'cb LogEventCallbackWrapper option"
  sub_Flags :: uint32

record EvtOpenPublisherMetadata_args =
  pm_Session :: Handle
  pm_PublisherIdentity :: "string option"
  pm_LogFilePath :: "string option"
  pm_Locale :: uint32
  pm_Flags :: uint32

record handle_reply =
  hr_r1 :: uintptr
  hr_lastErr :: error

text \<open>The wrappers: a zero \<open>r1\<close> is failure and yields \<open>lastErr\<close>.\<close>

definition EvtRender ::
  "(EvtRender_args \<Rightarrow> 'w \<Rightarrow> EvtRender_reply \<times> 'w) \<Rightarrow> EvtRender_args \<Rightarrow> 'w
     \<Rightarrow> error option \<times> EvtRender_reply \<times> 'w" where
  "EvtRender evtRender a w =
     (let (rep, w') = evtRender a w in
      if rn_r1 rep = 0 then (Some (rn_lastErr rep), rep, w') else (None, rep, w'))"

definition EvtFormatMessage ::
  "(EvtFormatMessage_args \<Rightarrow> 'w \<Rightarrow> EvtFormatMessage_reply \<times> 'w) \<Rightarrow> EvtFormatMessage_args
     \<Rightarrow> 'w \<Rightarrow> error option \<times> EvtFormatMessage_reply \<times> 'w" where
  "EvtFormatMessage evtFormatMessage a w =
     (let (rep, w') = evtFormatMessage a w in
      if fm_r1 rep = 0 then (Some (fm_lastErr rep), rep, w') else (None, rep, w'))"

definition EvtSubscribe ::
  "('cb EvtSubscribe_args \<Rightarrow> 'w \<Rightarrow> handle_reply \<times> 'w) \<Rightarrow> 'cb EvtSubscribe_args \<Rightarrow> 'w
     \<Rightarrow> (Handle \<times> error option) \<times> 'w" where
  "EvtSubscribe evtSubscribe a w =
     (let (rep, w') = evtSubscribe a w in
      if hr_r1 rep = 0 then ((0, Some (hr_lastErr rep)), w') else ((hr_r1 rep, None), w'))"

definition EvtOpenPublisherMetadata ::
  "(EvtOpenPublisherMetadata_args \<Rightarrow> 'w \<Rightarrow> handle_reply \<times> 'w)
     \<Rightarrow> EvtOpenPublisherMetadata_args \<Rightarrow> 'w \<Rightarrow> (Handle \<times> error option) \<times> 'w" where
  "EvtOpenPublisherMetadata evtOpenPublisherMetadata a w =
     (let (rep, w') = evtOpenPublisherMetadata a w in
      if hr_r1 rep = 0 then ((0, Some (hr_lastErr rep)), w') else ((hr_r1 rep, None), w'))"

subsection \<open>Constants of the interface\<close>

definition EvtSubscribeToFutureEvents :: "64 word" where
  "EvtSubscribeToFutureEvents = 1"

definition EvtSubscribeStartAtOldestRecord :: "64 word" where
  "EvtSubscribeStartAtOldestRecord = 2"

definition EvtSubscribeStartAfterBookmark :: "64 word" where
  "EvtSubscribeStartAfterBookmark = 3"

definition EvtSystemProviderName :: nat where
  "EvtSystemProviderName = 0"

definition EvtRenderEventValues :: uint32 where
  "EvtRenderEventValues = 0"

definition EvtRenderEventXml :: uint32 where
  "EvtRenderEventXml = 1"

subsection \<open>Slices and strings of the Go side\<close>

text \<open>
  \<open>make([]byte, n)\<close> and \<open>make([]uint16, n)\<close> give \<open>n\<close> zero elements. A
  \<open>[]uint16\<close> occupies two bytes an element, low byte first. The native side writes
  bytes from the start of the allocation and never changes its length.
\<close>

definition make_bytes :: "nat \<Rightarrow> byte list" where
  "make_bytes n = replicate n 0"

definition make_uint16s :: "nat \<Rightarrow> 16 word list" where
  "make_uint16s n = replicate n 0"

definition bytes_of_uint16s :: "16 word list \<Rightarrow> byte list" where
  "bytes_of_uint16s us = concat (map (\<lambda>u. [ucast u, ucast (drop_bit 8 u)]) us)"

fun uint16s_of_bytes :: "byte list \<Rightarrow> 16 word list" where
  "uint16s_of_bytes (lo # hi # bs) =
     (ucast lo + push_bit 8 (ucast hi)) # uint16s_of_bytes bs"
| "uint16s_of_bytes _ = []"

definition write_back :: "byte list \<Rightarrow> byte list \<Rightarrow> byte list" where
  "write_back written mem = take (length mem) written @ drop (length written) mem"

text \<open>
  \<open>syscall.UTF16ToString\<close> stops at the first zero unit; the string it returns is
  represented by its UTF-16 code units. \<open>syscall.UTF16PtrFromString\<close> refuses a
  string that contains a NUL byte with \<open>EINVAL\<close>.
\<close>

definition UTF16ToString :: "16 word list \<Rightarrow> 16 word list" where
  "UTF16ToString s = takeWhile (\<lambda>u. u \<noteq> 0) s"

definition UTF16PtrFromString :: "string \<Rightarrow> string option \<times> error option" where
  "UTF16PtrFromString s =
     (if CHR 0x00 \<in> set s then (None, Some EINVAL) else (Some s, None))"

section \<open>Two-phase decoding\<close>

text \<open>
  Each function returns what the Go function does (its pair of results, or a panic),
  the native calls it made in order, each with the reply it got, and the world after.
\<close>

definition FormatMessage ::
  "(EvtFormatMessage_args \<Rightarrow> 'w \<Rightarrow> EvtFormatMessage_reply \<times> 'w) \<Rightarrow> Handle \<Rightarrow> Handle
     \<Rightarrow> 64 word \<Rightarrow> 'w
     \<Rightarrow> (16 word list \<times> error option) outcome
         \<times> (EvtFormatMessage_args \<times> EvtFormatMessage_reply) list \<times> 'w" where
  "FormatMessage evtFormatMessage eventPublisherHandle eventHandle format w =
     (let size0 = 0;
          a1 = \<lparr>fm_PublisherMetadata = eventPublisherHandle, fm_Event = eventHandle,
                fm_MessageId = 0, fm_ValueCount = 0, fm_Values = None,
                fm_Flags = ucast format, fm_BufferSize = 0, fm_Buffer = None,
                fm_BufferUsed = size0\<rparr>;
          (err, rep1, w1) = EvtFormatMessage evtFormatMessage a1 w;
          size = fm_out_BufferUsed rep1
      in if (case err of
               None \<Rightarrow> False
             | Some (Errno errno) \<Rightarrow> errno \<noteq> 122
             | Some _ \<Rightarrow> True)
         then (Returned ([], err), [(a1, rep1)], w1)
         else
           (let buf = make_uint16s (unat size) in
            if length buf = 0 then (Panicked, [(a1, rep1)], w1)
            else
              (let a2 = \<lparr>fm_PublisherMetadata = eventPublisherHandle, fm_Event = eventHandle,
                         fm_MessageId = 0, fm_ValueCount = 0, fm_Values = None,
                         fm_Flags = ucast format, fm_BufferSize = of_nat (length buf),
                         fm_Buffer = Some (bytes_of_uint16s buf), fm_BufferUsed = size\<rparr>;
                   (err2, rep2, w2) = EvtFormatMessage evtFormatMessage a2 w1;
                   buf' = uint16s_of_bytes (write_back (fm_written rep2) (bytes_of_uint16s buf))
               in case err2 of
                    Some e \<Rightarrow> (Returned ([], Some e), [(a1, rep1), (a2, rep2)], w2)
                  | None \<Rightarrow>
                      (Returned (UTF16ToString buf', None), [(a1, rep1), (a2, rep2)], w2))))"

text \<open>
  \<open>NewEvtVariant\<close> is declared outside \<open>event.go\<close> and is a parameter here. A nil
  \<open>EvtVariant\<close> is \<open>None\<close>.
\<close>

definition RenderEventValues ::
  "(byte list \<Rightarrow> 'v) \<Rightarrow> (EvtRender_args \<Rightarrow> 'w \<Rightarrow> EvtRender_reply \<times> 'w) \<Rightarrow> Handle \<Rightarrow> Handle
     \<Rightarrow> 'w
     \<Rightarrow> ('v option \<times> error option) outcome \<times> (EvtRender_args \<times> EvtRender_reply) list \<times> 'w"
  where
  "RenderEventValues NewEvtVariant evtRender renderContext eventHandle w =
     (let bufferUsed0 = 0; propertyCount0 = 0;
          a1 = \<lparr>rn_Context = renderContext, rn_Fragment = eventHandle,
                rn_Flags = EvtRenderEventValues, rn_BufferSize = 0, rn_Buffer = None,
                rn_BufferUsed = bufferUsed0, rn_PropertyCount = propertyCount0\<rparr>;
          (err, rep1, w1) = EvtRender evtRender a1 w;
          bufferUsed = rn_out_BufferUsed rep1;
          propertyCount = rn_out_PropertyCount rep1
      in if bufferUsed = 0 then (Returned (None, err), [(a1, rep1)], w1)
         else
           (let buffer = make_bytes (unat bufferUsed);
                bufSize = bufferUsed;
                a2 = \<lparr>rn_Context = renderContext, rn_Fragment = eventHandle,
                      rn_Flags = EvtRenderEventValues, rn_BufferSize = bufSize,
                      rn_Buffer = Some buffer, rn_BufferUsed = bufferUsed,
                      rn_PropertyCount = propertyCount\<rparr>;
                (err2, rep2, w2) = EvtRender evtRender a2 w1;
                buffer' = write_back (rn_written rep2) buffer
            in case err2 of
                 Some e \<Rightarrow> (Returned (None, Some e), [(a1, rep1), (a2, rep2)], w2)
               | None \<Rightarrow>
                   (Returned (Some (NewEvtVariant buffer'), None),
                    [(a1, rep1), (a2, rep2)], w2)))"

definition RenderEventXML ::
  "(EvtRender_args \<Rightarrow> 'w \<Rightarrow> EvtRender_reply \<times> 'w) \<Rightarrow> Handle \<Rightarrow> 'w
     \<Rightarrow> (16 word list option \<times> error option) outcome
         \<times> (EvtRender_args \<times> EvtRender_reply) list \<times> 'w" where
  "RenderEventXML evtRender eventHandle w =
     (let bufferUsed0 = 0; propertyCount0 = 0;
          a1 = \<lparr>rn_Context = 0, rn_Fragment = eventHandle,
                rn_Flags = EvtRenderEventXml, rn_BufferSize = 0, rn_Buffer = None,
                rn_BufferUsed = bufferUsed0, rn_PropertyCount = propertyCount0\<rparr>;
          (err, rep1, w1) = EvtRender evtRender a1 w;
          bufferUsed = rn_out_BufferUsed rep1;
          propertyCount = rn_out_PropertyCount rep1
      in if bufferUsed = 0 then (Returned (None, err), [(a1, rep1)], w1)
         else
           (let buffer = make_uint16s (unat bufferUsed);
                bufSize = bufferUsed;
                a2 = \<lparr>rn_Context = 0, rn_Fragment = eventHandle,
                      rn_Flags = EvtRenderEventXml, rn_BufferSize = bufSize,
                      rn_Buffer = Some (bytes_of_uint16s buffer), rn_BufferUsed = bufferUsed,
                      rn_PropertyCount = propertyCount\<rparr>;
                (err2, rep2, w2) = EvtRender evtRender a2 w1;
                buffer' = uint16s_of_bytes (write_back (rn_written rep2) (bytes_of_uint16s buffer))
            in case err2 of
                 Some e \<Rightarrow> (Returned (None, Some e), [(a1, rep1), (a2, rep2)], w2)
               | None \<Rightarrow>
                   (Returned (Some (UTF16ToString buffer'), None),
                    [(a1, rep1), (a2, rep2)], w2)))"




section \<open>Opening subscriptions and publishers\<close>

text \<open>
  Each function returns its pair of Go results, the arguments of the native calls it
  made, in order, and the world after. \<open>startpos\<close> is an \<open>EVT_SUBSCRIBE_FLAGS\<close>,
  a Go \<open>int\<close>; \<open>uint32(startpos)\<close> keeps its low 32 bits.
\<close>

definition CreateListener ::
  "('cb EvtSubscribe_args \<Rightarrow> 'w \<Rightarrow> handle_reply \<times> 'w) \<Rightarrow> string \<Rightarrow> string \<Rightarrow> 64 word
     \<Rightarrow> 'cb LogEventCallbackWrapper option \<Rightarrow> 'w
     \<Rightarrow> (Handle \<times> error option) \<times> 'cb EvtSubscribe_args list \<times> 'w" where
  "CreateListener evtSubscribe channel query startpos watcher w =
     (case UTF16PtrFromString channel of
        (wideChan, Some err) \<Rightarrow> ((0, Some err), [], w)
      | (wideChan, None) \<Rightarrow>
          (case UTF16PtrFromString query of
             (wideQuery, Some err) \<Rightarrow> ((0, Some err), [], w)
           | (wideQuery, None) \<Rightarrow>
               (let a = \<lparr>sub_Session = 0, sub_SignalEvent = 0, sub_ChannelPath = wideChan,
                         sub_Query = wideQuery, sub_Bookmark = 0, sub_context = 0,
                         sub_Callback = watcher, sub_Flags = ucast startpos\<rparr>;
                    ((listenerHandle, err), w') = EvtSubscribe evtSubscribe a w
                in case err of
                     Some e \<Rightarrow> ((0, Some e), [a], w')
                   | None \<Rightarrow> ((listenerHandle, None), [a], w'))))"

definition CreateListenerFromBookmark ::
  "('cb EvtSubscribe_args \<Rightarrow> 'w \<Rightarrow> handle_reply \<times> 'w) \<Rightarrow> string \<Rightarrow> string
     \<Rightarrow> 'cb LogEventCallbackWrapper option \<Rightarrow> Handle \<Rightarrow> 'w
     \<Rightarrow> (Handle \<times> error option) \<times> 'cb EvtSubscribe_args list \<times> 'w" where
  "CreateListenerFromBookmark evtSubscribe channel query watcher bookmarkHandle w =
     (case UTF16PtrFromString channel of
        (wideChan, Some err) \<Rightarrow> ((0, Some err), [], w)
      | (wideChan, None) \<Rightarrow>
          (case UTF16PtrFromString query of
             (wideQuery, Some err) \<Rightarrow> ((0, Some err), [], w)
           | (wideQuery, None) \<Rightarrow>
               (let a = \<lparr>sub_Session = 0, sub_SignalEvent = 0, sub_ChannelPath = wideChan,
                         sub_Query = wideQuery, sub_Bookmark = bookmarkHandle, sub_context = 0,
                         sub_Callback = watcher,
                         sub_Flags = ucast EvtSubscribeStartAfterBookmark\<rparr>;
                    ((listenerHandle, err), w') = EvtSubscribe evtSubscribe a w
                in case err of
                     Some e \<Rightarrow> ((0, Some e), [a], w')
                   | None \<Rightarrow> ((listenerHandle, None), [a], w'))))"

text \<open>
  The method \<open>EvtVariant.String\<close> is declared outside \<open>event.go\<close>; it is the
  parameter \<open>String\<close>, from the rendered values and an ordinal to the method's pair of
  results.
\<close>

definition GetEventPublisherHandle ::
  "('v \<Rightarrow> nat \<Rightarrow> string \<times> error option)
     \<Rightarrow> (EvtOpenPublisherMetadata_args \<Rightarrow> 'w \<Rightarrow> handle_reply \<times> 'w) \<Rightarrow> 'v \<Rightarrow> 'w
     \<Rightarrow> (Handle \<times> error option) \<times> EvtOpenPublisherMetadata_args list \<times> 'w" where
  "GetEventPublisherHandle String evtOpenPublisherMetadata renderedFields w =
     (case String renderedFields EvtSystemProviderName of
        (publisher, Some err) \<Rightarrow> ((0, Some err), [], w)
      | (publisher, None) \<Rightarrow>
          (case UTF16PtrFromString publisher of
             (widePublisher, Some err) \<Rightarrow> ((0, Some err), [], w)
           | (widePublisher, None) \<Rightarrow>
               (let a = \<lparr>pm_Session = 0, pm_PublisherIdentity = widePublisher,
                         pm_LogFilePath = None, pm_Locale = 0, pm_Flags = 0\<rparr>;
                    ((handle, err), w') =
                       EvtOpenPublisherMetadata evtOpenPublisherMetadata a w
                in case err of
                     Some e \<Rightarrow> ((0, Some e), [a], w')
                   | None \<Rightarrow> ((handle, None), [a], w'))))"

section \<open>The map of an event\<close>

text \<open>
  \<open>WinLogEvent\<close> is declared outside \<open>event.go\<close>. The record has the fields
  \<open>CreateMap\<close> reads; any further field of the struct is in the record's extension.
  The map holds \<open>interface{}\<close> values, so every field is kept as a value of one type
  \<open>'v\<close> of dynamic values.
\<close>

record 'v WinLogEvent =
  Xml :: 'v
  ProviderName :: 'v
  EventId :: 'v
  Qualifiers :: 'v
  Level :: 'v
  Task :: 'v
  Opcode :: 'v
  Created :: 'v
  RecordId :: 'v
  ProcessId :: 'v
  ThreadId :: 'v
  Channel :: 'v
  ComputerName :: 'v
  Version :: 'v
  Msg :: 'v
  LevelText :: 'v
  TaskText :: 'v
  OpcodeText :: 'v
  Keywords :: 'v
  ChannelText :: 'v
  ProviderText :: 'v
  IdText :: 'v
  Bookmark :: 'v
  SubscribedChannel :: 'v

text \<open>
  The store: the events that pointers of type \<open>*WinLogEvent\<close> lead to, and the map
  objects, a map value being the index of its object. \<open>make\<close> appends a new object;
  an assignment \<open>m[k] = v\<close> changes the object of \<open>m\<close> alone.
\<close>

record ('e, 'v) heap =
  events :: "nat \<Rightarrow> 'e option"
  maps :: "(string \<Rightarrow> 'v option) list"

definition make_map :: "('e, 'v) heap \<Rightarrow> ('e, 'v) heap \<times> nat" where
  "make_map h = (h\<lparr>maps := maps h @ [Map.empty]\<rparr>, length (maps h))"

definition map_assign :: "nat \<Rightarrow> string \<Rightarrow> 'v \<Rightarrow> ('e, 'v) heap \<Rightarrow> ('e, 'v) heap" where
  "map_assign m k v h = h\<lparr>maps := (maps h)[m := (maps h ! m)(k \<mapsto> v)]\<rparr>"

text \<open>Reading \<open>ev.F\<close> through the pointer \<open>ev\<close>; there is no value through nil.\<close>

definition load_field :: "('e, 'v) heap \<Rightarrow> nat option \<Rightarrow> ('e \<Rightarrow> 'v) \<Rightarrow> 'v option" where
  "load_field h ev f = (case ev of None \<Rightarrow> None | Some a \<Rightarrow> map_option f (events h a))"

text \<open>The statement \<open>toReturn[k] = ev.F\<close>: a nil receiver panics.\<close>

definition assign_field ::
  "nat \<Rightarrow> nat option \<Rightarrow> string \<Rightarrow> ('e \<Rightarrow> 'v) \<Rightarrow> ('e, 'v) heap \<Rightarrow> ('e, 'v) heap outcome" where
  "assign_field toReturn ev k f h =
     (case load_field h ev f of
        None \<Rightarrow> Panicked
      | Some v \<Rightarrow> Returned (map_assign toReturn k v h))"

fun then_do :: "'a outcome \<Rightarrow> ('a \<Rightarrow> 'b outcome) \<Rightarrow> 'b outcome" where
  "then_do Panicked f = Panicked"
| "then_do (Returned x) f = f x"

text \<open>The assignments of \<open>CreateMap\<close>, in the order of the source.\<close>

definition CreateMap_assignments ::
  "(string \<times> (('v, 'x) WinLogEvent_scheme \<Rightarrow> 'v)) list" where
  "CreateMap_assignments =
     [(''Xml'', Xml),
      (''ProviderName'', ProviderName),
      (''EventId'', EventId),
      (''Qualifiers'', Qualifiers),
      (''Level'', Level),
      (''Task'', Task),
      (''Opcode'', Opcode),
      (''Created'', Created),
      (''RecordId'', RecordId),
      (''ProcessId'', ProcessId),
      (''ThreadId'', ThreadId),
      (''Channel'', Channel),
      (''ComputerName'', ComputerName),
      (''Version'', Version),
      (''Msg'', Msg),
      (''LevelText'', LevelText),
      (''TaskText'', TaskText),
      (''OpcodeText'', OpcodeText),
      (''Keywords'', Keywords),
      (''ChannelText'', ChannelText),
      (''ProviderText'', ProviderText),
      (''IdText'', IdText),
      (''Bookmark'', Bookmark),
      (''SubscribedChannel'', SubscribedChannel),
      (''Bookmark'', Bookmark)]"

definition CreateMap ::
  "nat option \<Rightarrow> (('v, 'x) WinLogEvent_scheme, 'v) heap
     \<Rightarrow> ((('v, 'x) WinLogEvent_scheme, 'v) heap \<times> nat) outcome" where
  "CreateMap ev h =
     (let (h0, toReturn) = make_map h in
      then_do
        (foldl (\<lambda>r (k, f). then_do r (assign_field toReturn ev k f)) (Returned h0)
           CreateMap_assignments)
        (\<lambda>h'. Returned (h', toReturn)))"

text \<open>The map a call returned, read from the store it returned.\<close>

definition returned_map ::
  "(('e, 'v) heap \<times> nat) outcome \<Rightarrow> (string \<Rightarrow> 'v option) option" where
  "returned_map r =
     (case r of
        Panicked \<Rightarrow> None
      | Returned (h', m) \<Rightarrow> if m < length (maps h') then Some (maps h' ! m) else None)"

section \<open>Scripted native sides\<close>

text \<open>
  A native side for concrete runs: the world is the list of replies still to be given,
  each call takes the next one, and \<open>d\<close> answers once the list is used up.
\<close>

definition scripted :: "'r \<Rightarrow> 'a \<Rightarrow> 'r list \<Rightarrow> 'r \<times> 'r list" where
  "scripted d a w = (case w of [] \<Rightarrow> (d, []) | r # rs \<Rightarrow> (r, rs))"



definition format_too_small :: "nat \<Rightarrow> EvtFormatMessage_reply" where
  "format_too_small n =
     \<lparr>fm_r1 = 0, fm_lastErr = Errno 122, fm_written = [], fm_out_BufferUsed = of_nat n\<rparr>"

definition format_done :: "byte list \<Rightarrow> nat \<Rightarrow> EvtFormatMessage_reply" where
  "format_done bs n =
     \<lparr>fm_r1 = 1, fm_lastErr = Errno 0, fm_written = bs, fm_out_BufferUsed = of_nat n\<rparr>"

text \<open>
  A stand-in for \<open>EvtVariant.String\<close> in concrete runs: the rendered values are the
  list of their strings, and an ordinal beyond the list is an error.
\<close>

definition fields_String :: "string list \<Rightarrow> nat \<Rightarrow> string \<times> error option" where
  "fields_String fs i = (if i < length fs then (fs ! i, None) else ([], Some EINVAL))"

text \<open>An event and a store for concrete runs: the event lives at address 3.\<close>

definition sample_event :: "string WinLogEvent" where
  "sample_event =
     \<lparr>Xml = ''<Event/>'',
      ProviderName = ''Service Control Manager'',
      EventId = ''7036'',
      Qualifiers = ''16384'',
      Level = ''4'',
      Task = ''0'',
      Opcode = ''0'',
      Created = ''2024-01-01T00:00:00Z'',
      RecordId = ''1234'',
      ProcessId = ''612'',
      ThreadId = ''4044'',
      Channel = ''System'',
      ComputerName = ''host'',
      Version = ''0'',
      Msg = ''The service entered the running state.'',
      LevelText = ''Information'',
      TaskText = '''',
      OpcodeText = '''',
      Keywords = ''Classic'',
      ChannelText = ''System'',
      ProviderText = ''Service Control Manager'',
      IdText = ''7036'',
      Bookmark = ''<BookmarkList/>'',
      SubscribedChannel = ''System''\<rparr>"

definition sample_heap :: "(string WinLogEvent, string) heap" where
  "sample_heap = \<lparr>events = Map.empty(3 \<mapsto> sample_event), maps = []\<rparr>"

section \<open>Theorems\<close>

subsection \<open>Helper facts\<close>



subsection \<open>The callback\<close>

text \<open>
  C3. The callback tells an error notification from a delivery by the action flag alone.
  With a wrapper whose sink is \<open>cb\<close>: when the action is \<open>EvtSubscribeActionError\<close>
  the handle parameter is read as a failure code (\<open>syscall.Errno\<close> of it),
  \<open>PublishError\<close> is invoked exactly once and \<open>PublishEvent\<close> not at all; for every
  other action the handle, whatever its value, is handed on as an event handle and no
  error is published.
\<close>

theorem callback_dispatch_by_action:
  assumes "context = Some w" and "callback w = Some cb"
  shows "newEventCallback context EvtSubscribeActionError c handle =
           Returned ([PublishError cb
              (Errorf ''Event log callback got error: %v'' (Errno handle))], 0)
       \<and> (\<forall>tr r. newEventCallback context EvtSubscribeActionError c handle = Returned (tr, r)
             \<longrightarrow> length (filter is_PublishError tr) = 1 \<and> filter is_PublishEvent tr = [])
       \<and> (\<forall>action. action \<noteq> EvtSubscribeActionError \<longrightarrow>
             newEventCallback context action c handle =
               Returned ([PublishEvent cb handle (subscribedChannel w)], 0))"
  using assms by (auto simp: newEventCallback_def)

theorem callback_dispatch_by_action_witness:
  "newEventCallback (Some \<lparr>callback = Some (7::nat), subscribedChannel = ''Application''\<rparr>)
       EvtSubscribeActionError 0 5 =
     Returned ([PublishError 7 (Errorf ''Event log callback got error: %v'' (Errno 5))], 0)
   \<and> newEventCallback (Some \<lparr>callback = Some (7::nat), subscribedChannel = ''Application''\<rparr>)
       EvtSubscribeActionDeliver 0 5 =
     Returned ([PublishEvent 7 5 ''Application''], 0)"
proof -
  let ?w = "\<lparr>callback = Some (7::nat), subscribedChannel = ''Application''\<rparr>"
  have ne: "EvtSubscribeActionDeliver \<noteq> EvtSubscribeActionError"
    by (simp add: EvtSubscribeActionDeliver_def EvtSubscribeActionError_def)
  from callback_dispatch_by_action [of "Some ?w" ?w 7 0 5] ne show ?thesis
    by simp
qed

text \<open>
  C9. With a wrapper whose sink is \<open>cb\<close>, every invocation whose action is not
  \<open>EvtSubscribeActionError\<close> (the deliver action and every other number alike)
  forwards the handle to \<open>PublishEvent\<close> with the wrapper's subscribed channel name,
  and the callback returns 0 whatever the action is.
\<close>

theorem callback_forwards_non_error:
  assumes "context = Some w" and "callback w = Some cb"
  shows "(action \<noteq> EvtSubscribeActionError \<longrightarrow>
            newEventCallback context action c handle =
              Returned ([PublishEvent cb handle (subscribedChannel w)], 0))
       \<and> (\<exists>tr. newEventCallback context action c handle = Returned (tr, 0))"
  using assms by (auto simp: newEventCallback_def)

theorem callback_forwards_non_error_witness:
  "newEventCallback (Some \<lparr>callback = Some (7::nat), subscribedChannel = ''Security''\<rparr>)
       2 0 9 = Returned ([PublishEvent 7 9 ''Security''], 0)"
proof -
  let ?w = "\<lparr>callback = Some (7::nat), subscribedChannel = ''Security''\<rparr>"
  have ne: "(2::uint32) \<noteq> EvtSubscribeActionError"
    by (simp add: EvtSubscribeActionError_def)
  from callback_forwards_non_error [of "Some ?w" ?w 7 2 0 9] ne show ?thesis
    by auto
qed

subsection \<open>Two-phase sizing\<close>



subsection \<open>The insufficient-buffer signal\<close>




subsection \<open>A probe that reports size zero\<close>

text \<open>
  With a probe that reports size 0, both render functions return nil and the probe's
  error after one call.
\<close>

lemma RenderEventValues_zero_size:
  assumes "RenderEventValues nv evtRender ctx h w = (out, tr, w')"
      and "rn_out_BufferUsed (snd (hd tr)) = 0"
  shows "length tr = 1
       \<and> out = Returned (None,
            if rn_r1 (snd (hd tr)) = 0 then Some (rn_lastErr (snd (hd tr))) else None)"
  using assms
  by (auto simp: RenderEventValues_def EvtRender_def Let_def
        split: prod.splits option.splits if_splits)

lemma RenderEventXML_zero_size:
  assumes "RenderEventXML evtRender h w = (out, tr, w')"
      and "rn_out_BufferUsed (snd (hd tr)) = 0"
  shows "length tr = 1
       \<and> out = Returned (None,
            if rn_r1 (snd (hd tr)) = 0 then Some (rn_lastErr (snd (hd tr))) else None)"
  using assms
  by (auto simp: RenderEventXML_def EvtRender_def Let_def
        split: prod.splits option.splits if_splits)

text \<open>
  \<open>FormatMessage\<close> has no such guard: unless the probe fails with an error other than
  122, a reported size of 0 leads to \<open>&buf[0]\<close> on an empty slice.
\<close>

lemma FormatMessage_zero_size:
  assumes "FormatMessage evtFormatMessage ph eh fmt u = (out, tr, u')"
      and "fm_out_BufferUsed (snd (hd tr)) = 0"
      and "fm_r1 (snd (hd tr)) \<noteq> 0 \<or> fm_lastErr (snd (hd tr)) = Errno 122"
  shows "out = Panicked \<and> length tr = 1"
  using assms
  by (auto simp: FormatMessage_def EvtFormatMessage_def Let_def make_uint16s_def unat_eq_0
        split: prod.splits option.splits if_splits error.splits)

text \<open>
  C8, at two concrete runs of \<open>FormatMessage\<close>. The probe reports size 0, once failing
  with 122 and once succeeding: the function indexes the first element of the empty
  buffer and panics, where the claim says it never does.
\<close>

theorem FormatMessage_zero_size_panics: "fst (FormatMessage (scripted (format_done [] 0)) 1 2 1 [format_too_small 0]) = Panicked
  \<and> fst (FormatMessage (scripted (format_done [] 0)) 1 2 1 [format_done [] 0]) = Panicked"
  by code_simp

subsection \<open>Subscriptions\<close>



text \<open>
  C5. A start position and a resume bookmark never go to the subscribe capability
  together: every call made by \<open>CreateListener\<close> carries the null bookmark handle and
  the caller's start position (as \<open>uint32\<close>), and every call made by
  \<open>CreateListenerFromBookmark\<close>, which takes no start position, carries the caller's
  bookmark handle and the start-after-bookmark flag.
\<close>

theorem start_position_and_bookmark_exclusive:
  "map (\<lambda>a. (sub_Bookmark a, sub_Flags a))
       (fst (snd (CreateListener evtSubscribe channel query startpos watcher w))) =
     (if CHR 0x00 \<in> set channel \<or> CHR 0x00 \<in> set query then []
      else [(0, ucast startpos)])
   \<and> map (\<lambda>a. (sub_Bookmark a, sub_Flags a))
       (fst (snd (CreateListenerFromBookmark evtSubscribe' channel' query' watcher'
          bookmarkHandle w'))) =
     (if CHR 0x00 \<in> set channel' \<or> CHR 0x00 \<in> set query' then []
      else [(bookmarkHandle, ucast EvtSubscribeStartAfterBookmark)])"
  by (simp add: CreateListener_def CreateListenerFromBookmark_def UTF16PtrFromString_def
        EvtSubscribe_def Let_def split: prod.splits option.splits)

theorem start_position_and_bookmark_exclusive_witness:
  "map (\<lambda>a. (sub_Bookmark a, sub_Flags a))
       (fst (snd (CreateListener (scripted \<lparr>hr_r1 = 0, hr_lastErr = Errno 5\<rparr>)
          ''Security'' ''*'' EvtSubscribeStartAtOldestRecord (None :: nat LogEventCallbackWrapper option)
          [\<lparr>hr_r1 = 78, hr_lastErr = Errno 0\<rparr>]))) = [(0, 2)]
   \<and> map (\<lambda>a. (sub_Bookmark a, sub_Flags a))
       (fst (snd (CreateListenerFromBookmark (scripted \<lparr>hr_r1 = 0, hr_lastErr = Errno 5\<rparr>)
          ''Security'' ''*'' (None :: nat LogEventCallbackWrapper option) 42
          [\<lparr>hr_r1 = 79, hr_lastErr = Errno 0\<rparr>]))) = [(42, 3)]"
  using start_position_and_bookmark_exclusive [of "scripted \<lparr>hr_r1 = 0, hr_lastErr = Errno 5\<rparr>" "''Security''" "''*''"
      EvtSubscribeStartAtOldestRecord "None :: nat LogEventCallbackWrapper option"
      "[\<lparr>hr_r1 = 78, hr_lastErr = Errno 0\<rparr>]"
      "scripted \<lparr>hr_r1 = 0, hr_lastErr = Errno 5\<rparr>" "''Security''" "''*''"
      "None :: nat LogEventCallbackWrapper option" 42
      "[\<lparr>hr_r1 = 79, hr_lastErr = Errno 0\<rparr>]"]
  by (simp add: EvtSubscribeStartAtOldestRecord_def EvtSubscribeStartAfterBookmark_def)

subsection \<open>The publisher of an event\<close>

text \<open>
  C6. \<open>GetEventPublisherHandle\<close> reads the field of ordinal
  \<open>EvtSystemProviderName\<close> (which is 0) of the rendered values as a string. If that
  fails, it returns the zero handle and that error and calls nothing. Otherwise (the name
  holding no NUL byte) it makes one call of the open-publisher capability, for that name,
  and returns what the call gives.
\<close>

theorem publisher_from_provider_name:
  assumes "String renderedFields EvtSystemProviderName = (publisher, e)"
  shows "(\<forall>err. e = Some err \<longrightarrow>
            GetEventPublisherHandle String evtOpenPublisherMetadata renderedFields w =
              ((0, Some err), [], w))
       \<and> (e = None \<and> CHR 0x00 \<notin> set publisher \<longrightarrow>
            fst (snd (GetEventPublisherHandle String evtOpenPublisherMetadata renderedFields w)) =
              [\<lparr>pm_Session = 0, pm_PublisherIdentity = Some publisher, pm_LogFilePath = None,
                pm_Locale = 0, pm_Flags = 0\<rparr>]
            \<and> fst (GetEventPublisherHandle String evtOpenPublisherMetadata renderedFields w) =
                fst (EvtOpenPublisherMetadata evtOpenPublisherMetadata
                  \<lparr>pm_Session = 0, pm_PublisherIdentity = Some publisher, pm_LogFilePath = None,
                   pm_Locale = 0, pm_Flags = 0\<rparr> w))
       \<and> EvtSystemProviderName = 0"
  using assms
  by (auto simp: GetEventPublisherHandle_def UTF16PtrFromString_def
        EvtOpenPublisherMetadata_def Let_def EvtSystemProviderName_def
        split: prod.splits option.splits)

theorem publisher_from_provider_name_witness:
  "GetEventPublisherHandle fields_String (scripted \<lparr>hr_r1 = 0, hr_lastErr = Errno 2\<rparr>) []
       [\<lparr>hr_r1 = 77, hr_lastErr = Errno 0\<rparr>] =
     ((0, Some EINVAL), [], [\<lparr>hr_r1 = 77, hr_lastErr = Errno 0\<rparr>])
   \<and> fst (snd (GetEventPublisherHandle fields_String
        (scripted \<lparr>hr_r1 = 0, hr_lastErr = Errno 2\<rparr>) [''Service Control Manager'']
        [\<lparr>hr_r1 = 77, hr_lastErr = Errno 0\<rparr>])) =
     [\<lparr>pm_Session = 0, pm_PublisherIdentity = Some ''Service Control Manager'',
       pm_LogFilePath = None, pm_Locale = 0, pm_Flags = 0\<rparr>]
   \<and> fst (GetEventPublisherHandle fields_String
        (scripted \<lparr>hr_r1 = 0, hr_lastErr = Errno 2\<rparr>) [''Service Control Manager'']
        [\<lparr>hr_r1 = 77, hr_lastErr = Errno 0\<rparr>]) = (77, None)"
proof -
  have A: "fields_String [] EvtSystemProviderName = ([], Some EINVAL)"
    by (simp add: fields_String_def)
  have B: "fields_String [''Service Control Manager''] EvtSystemProviderName =
      (''Service Control Manager'', None)"
    by (simp add: fields_String_def EvtSystemProviderName_def)
  from A B
       publisher_from_provider_name [where String = fields_String and renderedFields = "[]" and publisher = "[]"
             and e = "Some EINVAL"
             and evtOpenPublisherMetadata = "scripted \<lparr>hr_r1 = 0, hr_lastErr = Errno 2\<rparr>"
             and w = "[\<lparr>hr_r1 = 77, hr_lastErr = Errno 0\<rparr>]"]
       publisher_from_provider_name [where String = fields_String and renderedFields = "[''Service Control Manager'']"
             and publisher = "''Service Control Manager''" and e = None
             and evtOpenPublisherMetadata = "scripted \<lparr>hr_r1 = 0, hr_lastErr = Errno 2\<rparr>"
             and w = "[\<lparr>hr_r1 = 77, hr_lastErr = Errno 0\<rparr>]"]
  show ?thesis
    by (simp add: EvtOpenPublisherMetadata_def scripted_def)
qed

subsection \<open>The map of an event\<close>

text \<open>
  The assignments of \<open>CreateMap\<close> through a live receiver all succeed and touch the
  one map object; through a nil receiver the first of them panics.
\<close>

lemma then_do_assign_fields:
  assumes "events h a = Some ev" and "m < length (maps h)"
  shows "foldl (\<lambda>r (k, f). then_do r (assign_field m (Some a) k f)) (Returned h) kfs =
           Returned (h\<lparr>maps := (maps h)[m := foldl (\<lambda>M (k, f). M(k \<mapsto> f ev)) (maps h ! m) kfs]\<rparr>)"
  using assms
proof (induction kfs arbitrary: h)
  case Nil
  then show ?case by simp
next
  case (Cons kf kfs)
  obtain k f where kf: "kf = (k, f)" by (cases kf)
  let ?h1 = "map_assign m k (f ev) h"
  have step: "assign_field m (Some a) k f h = Returned ?h1"
    using Cons.prems by (simp add: assign_field_def load_field_def)
  have e1: "events ?h1 a = Some ev" and l1: "m < length (maps ?h1)"
    using Cons.prems by (simp_all add: map_assign_def)
  show ?case
    using Cons.IH [OF e1 l1] Cons.prems
    by (simp add: kf step) (simp add: map_assign_def fun_upd_def)
qed

lemma then_do_Panicked:
  "foldl (\<lambda>r (k, f). then_do r (g k f)) Panicked kfs = Panicked"
  by (induction kfs) auto

lemma CreateMap_Some:
  assumes "events h a = Some ev"
  shows "CreateMap (Some a) h =
           Returned (h\<lparr>maps := maps h @
              [foldl (\<lambda>M (k, f). M(k \<mapsto> f ev)) Map.empty CreateMap_assignments]\<rparr>,
            length (maps h))"
proof -
  let ?h0 = "h\<lparr>maps := maps h @ [Map.empty]\<rparr>"
  have e0: "events ?h0 a = Some ev" using assms by simp
  have l0: "length (maps h) < length (maps ?h0)" by simp
  show ?thesis
    by (simp add: CreateMap_def make_map_def then_do_assign_fields [OF e0 l0])
qed

lemma CreateMap_Panicked:
  assumes "p = None \<or> (\<exists>a. p = Some a \<and> events h a = None)"
  shows "CreateMap p h = Panicked"
  using assms
  by (auto simp: CreateMap_def make_map_def CreateMap_assignments_def
        assign_field_def load_field_def then_do_Panicked)

lemma CreateMap_Returned_iff:
  "CreateMap p h = Returned r \<Longrightarrow> \<exists>a ev. p = Some a \<and> events h a = Some ev"
  using CreateMap_Panicked [of p h] by (cases p) auto

text \<open>
  C7. For every \<open>WinLogEvent\<close> (a receiver that points to one), \<open>CreateMap\<close> returns
  a map whose keys are exactly the twenty-four names below, each mapped to the field of
  that name.
\<close>

theorem CreateMap_keys_and_values:
  assumes "events h a = Some ev"
  shows "\<exists>M. returned_map (CreateMap (Some a) h) = Some M
          \<and> dom M = {''Xml'', ''ProviderName'', ''EventId'', ''Qualifiers'', ''Level'', ''Task'', ''Opcode'', ''Created'', ''RecordId'', ''ProcessId'', ''ThreadId'', ''Channel'', ''ComputerName'', ''Version'', ''Msg'', ''LevelText'', ''TaskText'', ''OpcodeText'', ''Keywords'', ''ChannelText'', ''ProviderText'', ''IdText'', ''Bookmark'', ''SubscribedChannel''}
          \<and> M ''Xml'' = Some (Xml ev)
          \<and> M ''ProviderName'' = Some (ProviderName ev)
          \<and> M ''EventId'' = Some (EventId ev)
          \<and> M ''Qualifiers'' = Some (Qualifiers ev)
          \<and> M ''Level'' = Some (Level ev)
          \<and> M ''Task'' = Some (Task ev)
          \<and> M ''Opcode'' = Some (Opcode ev)
          \<and> M ''Created'' = Some (Created ev)
          \<and> M ''RecordId'' = Some (RecordId ev)
          \<and> M ''ProcessId'' = Some (ProcessId ev)
          \<and> M ''ThreadId'' = Some (ThreadId ev)
          \<and> M ''Channel'' = Some (Channel ev)
          \<and> M ''ComputerName'' = Some (ComputerName ev)
          \<and> M ''Version'' = Some (Version ev)
          \<and> M ''Msg'' = Some (Msg ev)
          \<and> M ''LevelText'' = Some (LevelText ev)
          \<and> M ''TaskText'' = Some (TaskText ev)
          \<and> M ''OpcodeText'' = Some (OpcodeText ev)
          \<and> M ''Keywords'' = Some (Keywords ev)
          \<and> M ''ChannelText'' = Some (ChannelText ev)
          \<and> M ''ProviderText'' = Some (ProviderText ev)
          \<and> M ''IdText'' = Some (IdText ev)
          \<and> M ''Bookmark'' = Some (Bookmark ev)
          \<and> M ''SubscribedChannel'' = Some (SubscribedChannel ev)"
  unfolding CreateMap_Some [OF assms] returned_map_def CreateMap_assignments_def
  by auto

theorem CreateMap_keys_and_values_witness:
  "map_option (\<lambda>M. (M ''Xml'', M ''EventId'', M ''Bookmark'', M ''XmlErr''))
       (returned_map (CreateMap (Some 3) sample_heap)) =
     Some (Some ''<Event/>'', Some ''7036'', Some ''<BookmarkList/>'', None)"
proof -
  have ev: "events sample_heap 3 = Some sample_event"
    by (simp add: sample_heap_def)
  from CreateMap_keys_and_values [OF ev] obtain M where
    M: "returned_map (CreateMap (Some 3) sample_heap) = Some M"
    and d: "dom M = {''Xml'', ''ProviderName'', ''EventId'', ''Qualifiers'', ''Level'',
      ''Task'', ''Opcode'', ''Created'', ''RecordId'', ''ProcessId'',
      ''ThreadId'', ''Channel'', ''ComputerName'', ''Version'', ''Msg'',
      ''LevelText'', ''TaskText'', ''OpcodeText'', ''Keywords'',
      ''ChannelText'', ''ProviderText'', ''IdText'', ''Bookmark'',
      ''SubscribedChannel''}"
    and x: "M ''Xml'' = Some (Xml sample_event)"
    and i: "M ''EventId'' = Some (EventId sample_event)"
    and b: "M ''Bookmark'' = Some (Bookmark sample_event)"
    by blast
  have "''XmlErr'' \<notin> dom M" unfolding d by simp
  then have n: "M ''XmlErr'' = None" by blast
  show ?thesis
    by (simp add: M x i b n sample_event_def)
qed

text \<open>
  C10. A call of \<open>CreateMap\<close> that returns leaves every event of the store, the
  receiver's included, as it was, and every map that existed as it was; the map it
  returns is a new object. A second call on the same receiver returns another new map
  and leaves the first one alone.
\<close>

theorem CreateMap_frame:
  assumes "CreateMap p h = Returned (h', m)"
  shows "events h' = events h
       \<and> m = length (maps h)
       \<and> length (maps h') = Suc (length (maps h))
       \<and> take (length (maps h)) (maps h') = maps h
       \<and> (\<exists>h'' m'. CreateMap p h' = Returned (h'', m')
             \<and> m' \<noteq> m \<and> events h'' = events h \<and> maps h'' ! m = maps h' ! m)"
proof -
  from CreateMap_Returned_iff [OF assms] obtain a ev
    where p: "p = Some a" and ev: "events h a = Some ev" by blast
  from assms have h': "h' = h\<lparr>maps := maps h @
        [foldl (\<lambda>M (k, f). M(k \<mapsto> f ev)) Map.empty CreateMap_assignments]\<rparr>"
    and m: "m = length (maps h)"
    unfolding p CreateMap_Some [OF ev] by simp_all
  have ev': "events h' a = Some ev" using ev by (simp add: h')
  have second: "CreateMap p h' = Returned (h'\<lparr>maps := maps h' @
        [foldl (\<lambda>M (k, f). M(k \<mapsto> f ev)) Map.empty CreateMap_assignments]\<rparr>,
      length (maps h'))"
    unfolding p by (rule CreateMap_Some [OF ev'])
  have A: "events h' = events h" by (simp add: h')
  have B: "length (maps h') = Suc (length (maps h))" by (simp add: h')
  have C: "take (length (maps h)) (maps h') = maps h" by (simp add: h')
  have D: "\<exists>h'' m'. CreateMap p h' = Returned (h'', m')
             \<and> m' \<noteq> m \<and> events h'' = events h \<and> maps h'' ! m = maps h' ! m"
    unfolding second by (simp add: m B A nth_append)
  from A m B C D show ?thesis by simp
qed

theorem CreateMap_frame_witness:
  "(case CreateMap (Some 3) sample_heap of
      Panicked \<Rightarrow> False
    | Returned (h', m) \<Rightarrow>
        events h' 3 = Some sample_event \<and> m = 0 \<and> length (maps h') = 1)"
proof -
  have ev: "events sample_heap 3 = Some sample_event"
    by (simp add: sample_heap_def)
  obtain h' m where X: "CreateMap (Some 3) sample_heap = Returned (h', m)"
    using CreateMap_Some [OF ev] by blast
  from CreateMap_frame [OF X] ev show ?thesis
    unfolding X by (simp add: sample_heap_def)
qed

end
